theory Spec2Isabelle
  imports Main "HOL-Library.Word"
begin

section \<open>The rotating log writer of logrotate.go\<close>

text \<open>
  The package is one struct, \<^verbatim>\<open>Logrotate\<close>, with a constructor and the two methods of
  \<^verbatim>\<open>io.WriteCloser\<close>. Everything it does goes through the operating system: it stats
  and creates a directory, opens, writes, closes and renames files and reads the clock.
  The embedding therefore has two layers:
  \<^item> the operating system and the Go standard library, as far as the package calls them,
    as functions on an explicit \<open>world\<close>;
  \<^item> the functions of logrotate.go, translated one by one, passing the struct and the
    world along and returning Go's \<^verbatim>\<open>error\<close> as \<open>error option\<close> (\<open>None\<close> is \<^verbatim>\<open>nil\<close>).
  The mutex \<^verbatim>\<open>mu\<close> has no counterpart: the embedding is sequential.
\<close>

subsection \<open>Values\<close>

type_synonym byte = "8 word"
type_synonym int64 = "64 word"
type_synonym path = string

text \<open>A \<^verbatim>\<open>*os.File\<close> is known by its identity only.\<close>

type_synonym fileptr = nat

datatype errno = ENOENT | EEXIST | EACCES | EIO | ENOSPC | EISDIR | ENOTDIR

text \<open>
  The error values the package can return: its own \<^verbatim>\<open>errors.New(...)\<close>, and what the
  \<^verbatim>\<open>os\<close> package hands back (an errno wrapped in a \<^verbatim>\<open>*PathError\<close> or \<^verbatim>\<open>*LinkError\<close>,
  \<^verbatim>\<open>io.ErrShortWrite\<close>, \<^verbatim>\<open>os.ErrInvalid\<close> for a nil file, \<^verbatim>\<open>os.ErrClosed\<close>).
\<close>

datatype error =
    ErrorsNew string
  | PathError errno
  | ErrShortWrite
  | ErrInvalid
  | ErrClosed

fun IsNotExist :: "error option \<Rightarrow> bool" where
  "IsNotExist (Some (PathError ENOENT)) = True"
| "IsNotExist _ = False"

datatype open_flag = O_WRONLY | O_APPEND | O_CREATE

subsection \<open>The clock and the layout \<^verbatim>\<open>2006.01.02_15:04:05\<close>\<close>

text \<open>A \<^verbatim>\<open>time.Time\<close>, already broken down in the local time zone.\<close>

record time =
  year :: nat
  month :: nat
  day :: nat
  hour :: nat
  minute :: nat
  second :: nat

definition digit :: "nat \<Rightarrow> char" where
  "digit n = ''0123456789'' ! (n mod 10)"

function decimal :: "nat \<Rightarrow> string" where
  "decimal n = (if n < 10 then [digit n] else decimal (n div 10) @ [digit n])"
  by pat_completeness auto
termination
  by (relation "measure id") auto

declare decimal.simps [simp del]

text \<open>\<^verbatim>\<open>appendInt(b, x, width)\<close> of package time, for \<open>x \<ge> 0\<close>: decimal, zero-padded.\<close>

definition appendInt :: "nat \<Rightarrow> nat \<Rightarrow> string" where
  "appendInt x width = replicate (width - length (decimal x)) (CHR ''0'') @ decimal x"

text \<open>\<^verbatim>\<open>t.Format("2006.01.02_15:04:05")\<close>.\<close>

definition Format :: "time \<Rightarrow> string" where
  "Format t =
     appendInt (year t) 4 @ ''.'' @ appendInt (month t) 2 @ ''.'' @ appendInt (day t) 2 @ ''_'' @
     appendInt (hour t) 2 @ '':'' @ appendInt (minute t) 2 @ '':'' @ appendInt (second t) 2"

subsection \<open>The world\<close>

text \<open>
  Every call into the operating system is recorded, in order, in the world's \<open>trace\<close>.
\<close>

datatype syscall =
    SysStat path
  | SysMkdir path nat
  | SysOpenFile path "open_flag list" nat
  | SysWrite fileptr "byte list"
  | SysClose fileptr
  | SysRename path path
  | SysNow

text \<open>
  What the environment does to the next call: let it run, or make it fail with an error.
  A failing write has still transferred the given number of bytes (at most the payload).
  A call that is let run fails only for what the files and directories of the model show
  (a missing file, an existing directory); every other failure of the real call
  (permissions, a missing parent directory, a full disk, an I/O error) is a fault, and any
  call can meet one.
\<close>

datatype fault = Proceed | Fail error nat

text \<open>
  \<^item> \<open>files\<close>: the regular files, by path, with their contents;
  \<^item> \<open>dirs\<close>: the directories;
  \<^item> \<open>opened\<close>: the open \<^verbatim>\<open>*os.File\<close>s, each with the path it was opened at and the number
    of bytes written through it since;
  \<^item> \<open>next_file\<close>: the identity the next \<^verbatim>\<open>os.OpenFile\<close> returns;
  \<^item> \<open>clock\<close>, \<open>ticks\<close>: the \<open>i\<close>-th reading of the clock is \<open>clock i\<close>;
  \<^item> \<open>faults\<close>: what the environment does to the coming calls, one entry per call
    (none left: the call runs);
  \<^item> \<open>Dir\<close>: \<^verbatim>\<open>filepath.Dir\<close>, a pure function of the path that no property below
    depends on; it is left open;
  \<^item> \<open>trace\<close>: the calls made so far, oldest first.
  Nobody else renames or removes files in this world, so an open file stays at the
  path it was opened at.
\<close>

record world =
  files :: "path \<rightharpoonup> byte list"
  dirs :: "path set"
  opened :: "fileptr \<rightharpoonup> path \<times> nat"
  next_file :: fileptr
  clock :: "nat \<Rightarrow> time"
  ticks :: nat
  faults :: "fault list"
  Dir :: "path \<Rightarrow> path"
  trace :: "syscall list"

definition enter :: "syscall \<Rightarrow> world \<Rightarrow> fault \<times> world" where
  "enter c w =
     (case faults w of
        [] \<Rightarrow> (Proceed, w\<lparr>trace := trace w @ [c]\<rparr>)
      | f # fs \<Rightarrow> (f, w\<lparr>faults := fs, trace := trace w @ [c]\<rparr>))"

text \<open>\<^verbatim>\<open>os.Stat(name)\<close>; the \<^verbatim>\<open>FileInfo\<close> is dropped, as the caller drops it.\<close>

definition os_Stat :: "path \<Rightarrow> world \<Rightarrow> error option \<times> world" where
  "os_Stat name w =
     (case enter (SysStat name) w of
        (Fail e k, w') \<Rightarrow> (Some e, w')
      | (Proceed, w') \<Rightarrow>
          (if name \<in> dirs w' \<or> files w' name \<noteq> None then (None, w')
           else (Some (PathError ENOENT), w')))"

text \<open>\<^verbatim>\<open>os.Mkdir(name, perm)\<close>.\<close>

definition os_Mkdir :: "path \<Rightarrow> nat \<Rightarrow> world \<Rightarrow> error option \<times> world" where
  "os_Mkdir name perm w =
     (case enter (SysMkdir name perm) w of
        (Fail e k, w') \<Rightarrow> (Some e, w')
      | (Proceed, w') \<Rightarrow>
          (if name \<in> dirs w' \<or> files w' name \<noteq> None then (Some (PathError EEXIST), w')
           else (None, w'\<lparr>dirs := insert name (dirs w')\<rparr>)))"

text \<open>
  \<^verbatim>\<open>os.OpenFile(name, flag, perm)\<close>: a missing file is created empty under
  \<^verbatim>\<open>O_CREATE\<close>, an existing one is opened as it is (there is no \<^verbatim>\<open>O_TRUNC\<close>).
\<close>

definition os_OpenFile ::
  "path \<Rightarrow> open_flag list \<Rightarrow> nat \<Rightarrow> world \<Rightarrow> (error + fileptr) \<times> world" where
  "os_OpenFile name flag perm w =
     (case enter (SysOpenFile name flag perm) w of
        (Fail e k, w') \<Rightarrow> (Inl e, w')
      | (Proceed, w') \<Rightarrow>
          (if name \<in> dirs w' then (Inl (PathError EISDIR), w')
           else if files w' name = None \<and> O_CREATE \<notin> set flag then (Inl (PathError ENOENT), w')
           else
             (Inr (next_file w'),
              w'\<lparr>files := (case files w' name of
                             None \<Rightarrow> (files w')(name \<mapsto> [])
                           | Some c \<Rightarrow> files w'),
                 opened := (opened w')(next_file w' \<mapsto> (name, 0)),
                 next_file := Suc (next_file w')\<rparr>)))"

text \<open>
  \<^verbatim>\<open>f.Write(b)\<close> on a non-nil \<^verbatim>\<open>*os.File\<close> opened with \<^verbatim>\<open>O_APPEND\<close>: returns the number
  of bytes written, between 0 and \<^verbatim>\<open>len(b)\<close>, and an error. The bytes go to the end of the
  file; when the file is no longer at its path, no path shows them.
\<close>

definition File_Write :: "fileptr \<Rightarrow> byte list \<Rightarrow> world \<Rightarrow> (nat \<times> error option) \<times> world" where
  "File_Write f b w =
     (case enter (SysWrite f b) w of
        (fl, w') \<Rightarrow>
          (case opened w' f of
             None \<Rightarrow> ((0, Some ErrClosed), w')
           | Some (name, written) \<Rightarrow>
               (let n = (case fl of Proceed \<Rightarrow> length b | Fail e k \<Rightarrow> min k (length b));
                    err = (case fl of Proceed \<Rightarrow> None | Fail e k \<Rightarrow> Some e)
                in ((n, err),
                    w'\<lparr>files := (case files w' name of
                                   None \<Rightarrow> files w'
                                 | Some c \<Rightarrow> (files w')(name \<mapsto> c @ take n b)),
                       opened := (opened w')(f \<mapsto> (name, written + n))\<rparr>))))"

text \<open>\<^verbatim>\<open>f.Close()\<close> on a non-nil \<^verbatim>\<open>*os.File\<close>: the file is closed whatever is returned.\<close>

definition File_Close :: "fileptr \<Rightarrow> world \<Rightarrow> error option \<times> world" where
  "File_Close f w =
     (case enter (SysClose f) w of
        (fl, w') \<Rightarrow>
          ((case opened w' f of
              None \<Rightarrow> Some ErrClosed
            | Some x \<Rightarrow> (case fl of Proceed \<Rightarrow> None | Fail e k \<Rightarrow> Some e)),
           w'\<lparr>opened := (opened w')(f := None)\<rparr>))"

text \<open>\<^verbatim>\<open>os.Rename(oldpath, newpath)\<close>: an existing \<^verbatim>\<open>newpath\<close> is replaced.\<close>

definition os_Rename :: "path \<Rightarrow> path \<Rightarrow> world \<Rightarrow> error option \<times> world" where
  "os_Rename oldpath newpath w =
     (case enter (SysRename oldpath newpath) w of
        (Fail e k, w') \<Rightarrow> (Some e, w')
      | (Proceed, w') \<Rightarrow>
          (case files w' oldpath of
             None \<Rightarrow> (Some (PathError ENOENT), w')
           | Some c \<Rightarrow>
               (if oldpath = newpath then (None, w')
                else (None, w'\<lparr>files := (files w')(oldpath := None, newpath \<mapsto> c)\<rparr>))))"

text \<open>\<^verbatim>\<open>time.Now()\<close>.\<close>

definition time_Now :: "world \<Rightarrow> time \<times> world" where
  "time_Now w = (clock w (ticks w), w\<lparr>ticks := Suc (ticks w), trace := trace w @ [SysNow]\<rparr>)"

subsection \<open>logrotate.go\<close>

definition defaultSize :: int64 where
  "defaultSize = 1"

definition megabyte :: int64 where
  "megabyte = 1024 * 1024"

text \<open>The struct; \<^verbatim>\<open>size\<close> is \<open>size'\<close> here, and \<^verbatim>\<open>mu\<close> is left out.\<close>

record Logrotate =
  Filename :: path
  MaxSize :: int64
  "file" :: "fileptr option"
  size' :: int64

text \<open>Comparisons of \<^verbatim>\<open>int64\<close> are comparisons of the signed values.\<close>

definition NewLogrotate :: "path \<Rightarrow> int64 \<Rightarrow> Logrotate" where
  "NewLogrotate filename sz =
     (let sz = (if sint sz < sint defaultSize then defaultSize else sz)
      in \<lparr>Filename = filename, MaxSize = sz * megabyte, file = None, size' = 0\<rparr>)"

definition closeFile :: "Logrotate \<Rightarrow> world \<Rightarrow> error option \<times> Logrotate \<times> world" where
  "closeFile l w =
     (case file l of
        None \<Rightarrow> (None, l, w)
      | Some f \<Rightarrow> (case File_Close f w of (err, w') \<Rightarrow> (err, l\<lparr>file := None\<rparr>, w')))"

definition Close :: "Logrotate \<Rightarrow> world \<Rightarrow> error option \<times> Logrotate \<times> world" where
  "Close l w = closeFile l w"

definition createFile :: "Logrotate \<Rightarrow> world \<Rightarrow> error option \<times> Logrotate \<times> world" where
  "createFile l w =
     (case os_Stat (Dir w (Filename l)) w of
        (err, w1) \<Rightarrow>
          (case (if IsNotExist err then os_Mkdir (Dir w (Filename l)) 511 w1 else (None, w1)) of
             (Some err, w2) \<Rightarrow> (Some err, l, w2)
           | (None, w2) \<Rightarrow>
               (case os_OpenFile (Filename l) [O_CREATE, O_APPEND, O_WRONLY] 438 w2 of
                  (Inl err, w3) \<Rightarrow> (Some err, l, w3)
                | (Inr f, w3) \<Rightarrow> (None, l\<lparr>file := Some f, size' := 0\<rparr>, w3))))"

definition backupName :: "Logrotate \<Rightarrow> world \<Rightarrow> string \<times> world" where
  "backupName l w = (case time_Now w of (t, w') \<Rightarrow> (Filename l @ ''.'' @ Format t, w'))"

definition rotateFile :: "Logrotate \<Rightarrow> world \<Rightarrow> error option \<times> Logrotate \<times> world" where
  "rotateFile l w =
     (case closeFile l w of
        (Some err, l1, w1) \<Rightarrow> (Some err, l1, w1)
      | (None, l1, w1) \<Rightarrow>
          (case backupName l1 w1 of
             (backup, w2) \<Rightarrow>
               (case os_Rename (Filename l1) backup w2 of
                  (Some err, w3) \<Rightarrow> (Some err, l1, w3)
                | (None, w3) \<Rightarrow> createFile l1 w3)))"

text \<open>
  \<^verbatim>\<open>Write\<close>. \<^verbatim>\<open>len(p)\<close> is a non-negative \<^verbatim>\<open>int\<close>, \<^verbatim>\<open>int64(len(p))\<close> its value;
  \<^verbatim>\<open>writeLen+l.size\<close> and \<^verbatim>\<open>l.size += int64(n)\<close> are additions of \<^verbatim>\<open>int64\<close>, which wrap.
  \<^verbatim>\<open>Write\<close> on a nil \<^verbatim>\<open>*os.File\<close> returns \<^verbatim>\<open>0, os.ErrInvalid\<close>.
\<close>

definition Write ::
  "Logrotate \<Rightarrow> byte list \<Rightarrow> world \<Rightarrow> (nat \<times> error option) \<times> Logrotate \<times> world" where
  "Write l p w =
     (let writeLen = (of_nat (length p) :: int64) in
      if sint (MaxSize l) < sint writeLen
      then ((0, Some (ErrorsNew ''write length exceeds maximum file size'')), l, w)
      else
        (case (if file l = None then createFile l w else (None, l, w)) of
           (Some err, l1, w1) \<Rightarrow> ((0, Some err), l1, w1)
         | (None, l1, w1) \<Rightarrow>
             (case (if sint (MaxSize l1) < sint (writeLen + size' l1)
                    then rotateFile l1 w1 else (None, l1, w1)) of
                (Some err, l2, w2) \<Rightarrow> ((0, Some err), l2, w2)
              | (None, l2, w2) \<Rightarrow>
                  (case (case file l2 of
                           None \<Rightarrow> ((0, Some ErrInvalid), w2)
                         | Some f \<Rightarrow> File_Write f p w2) of
                     ((n, err), w3) \<Rightarrow>
                       ((n, err), l2\<lparr>size' := size' l2 + of_nat n\<rparr>, w3)))))"

subsection \<open>Observing a run\<close>

text \<open>The calls that write to a file.\<close>

fun is_write :: "syscall \<Rightarrow> bool" where
  "is_write (SysWrite f b) = True"
| "is_write _ = False"



subsection \<open>Example inputs\<close>

text \<open>
  A world with the directory \<^verbatim>\<open>logs\<close> and nothing else, in which every call runs, on
  31 October 2026 at 09:05:07 (the clock advances by a second at each reading).
\<close>

definition example_world :: world where
  "example_world =
     \<lparr>files = Map.empty, dirs = {''logs''}, opened = Map.empty, next_file = 3,
      clock = (\<lambda>i. \<lparr>year = 2026, month = 10, day = 31, hour = 9, minute = 5, second = 7 + i\<rparr>),
      ticks = 0, faults = [], Dir = (\<lambda>p. ''logs''), trace = []\<rparr>"

text \<open>
  The second scenario of the specification: a writer with a threshold of 1 MiB whose open
  file holds 600 KiB, in a world where that file is at \<^verbatim>\<open>logs/app.log\<close>.
\<close>

definition open_writer :: Logrotate where
  "open_writer = \<lparr>Filename = ''logs/app.log'', MaxSize = 1048576, file = Some 3, size' = 614400\<rparr>"

definition open_world :: world where
  "open_world =
     \<lparr>files = [''logs/app.log'' \<mapsto> replicate 614400 65], dirs = {''logs''},
      opened = [3 \<mapsto> (''logs/app.log'', 614400)], next_file = 4,
      clock = (\<lambda>i. \<lparr>year = 2026, month = 10, day = 31, hour = 9, minute = 5, second = 7 + i\<rparr>),
      ticks = 0, faults = [], Dir = (\<lambda>p. ''logs''), trace = []\<rparr>"

text \<open>The same world, in which the next call fails with an I/O error.\<close>

definition failing_close_world :: world where
  "failing_close_world = open_world\<lparr>faults := [Fail (PathError EIO) 0]\<rparr>"

text \<open>The same world again, in which the next write stops after 100 bytes.\<close>

definition short_write_world :: world where
  "short_write_world = open_world\<lparr>faults := [Fail ErrShortWrite 100]\<rparr>"


subsection \<open>The counter and the open file\<close>


section \<open>Properties\<close>

subsection \<open>Arithmetic of \<^verbatim>\<open>int64\<close>\<close>

lemma sint_of_nat_len: "n < 2 ^ 63 \<Longrightarrow> sint (of_nat n :: int64) = int n"
  by (simp add: signed_of_nat signed_take_bit_int_eq_self)

lemma sint_bounds64: "- (2 ^ 63) \<le> sint (x :: int64)" "sint (x :: int64) < 2 ^ 63"
  using sint_ge [of x] sint_lt [of x] by simp_all

lemma sint_add64:
  "- (2 ^ 63) \<le> sint a + sint b \<Longrightarrow> sint a + sint b < 2 ^ 63 \<Longrightarrow>
   sint (a + b :: int64) = sint a + sint b"
  by (simp add: sint_word_ariths signed_take_bit_int_eq_self)

lemma sint_mult64:
  "- (2 ^ 63) \<le> sint a * sint b \<Longrightarrow> sint a * sint b < 2 ^ 63 \<Longrightarrow>
   sint (a * b :: int64) = sint a * sint b"
  by (simp add: sint_word_ariths signed_take_bit_int_eq_self)

subsection \<open>What each call does to the world\<close>

lemma enter_effect:
  "enter c w = (fl, w') \<Longrightarrow>
   trace w' = trace w @ [c] \<and> files w' = files w \<and> dirs w' = dirs w \<and>
   opened w' = opened w \<and> next_file w' = next_file w \<and> clock w' = clock w \<and>
   ticks w' = ticks w \<and> Dir w' = Dir w"
  by (auto simp: enter_def split: list.splits)

lemma os_Stat_effect:
  "os_Stat name w = (err, w') \<Longrightarrow>
   trace w' = trace w @ [SysStat name] \<and> files w' = files w \<and> dirs w' = dirs w \<and>
   opened w' = opened w \<and> next_file w' = next_file w \<and> clock w' = clock w \<and>
   ticks w' = ticks w \<and> Dir w' = Dir w"
  by (auto simp: os_Stat_def enter_def split: list.splits fault.splits if_splits)

lemma os_Mkdir_effect:
  "os_Mkdir name perm w = (err, w') \<Longrightarrow>
   trace w' = trace w @ [SysMkdir name perm] \<and> files w' = files w \<and>
   opened w' = opened w \<and> next_file w' = next_file w \<and> clock w' = clock w \<and>
   ticks w' = ticks w \<and> Dir w' = Dir w"
  by (auto simp: os_Mkdir_def enter_def split: list.splits fault.splits if_splits)

lemma os_OpenFile_err:
  "os_OpenFile name flag perm w = (Inl e, w') \<Longrightarrow>
   trace w' = trace w @ [SysOpenFile name flag perm] \<and> files w' = files w \<and> dirs w' = dirs w \<and>
   opened w' = opened w \<and> next_file w' = next_file w \<and> clock w' = clock w \<and>
   ticks w' = ticks w \<and> Dir w' = Dir w"
  by (auto simp: os_OpenFile_def enter_def split: list.splits fault.splits if_splits)

lemma os_OpenFile_ok:
  "os_OpenFile name flag perm w = (Inr f, w') \<Longrightarrow>
   f = next_file w \<and>
   trace w' = trace w @ [SysOpenFile name flag perm] \<and>
   files w' = (case files w name of None \<Rightarrow> (files w)(name \<mapsto> []) | Some c \<Rightarrow> files w) \<and>
   dirs w' = dirs w \<and>
   opened w' = (opened w)(next_file w \<mapsto> (name, 0)) \<and>
   next_file w' = Suc (next_file w) \<and> clock w' = clock w \<and>
   ticks w' = ticks w \<and> Dir w' = Dir w"
  by (auto simp: os_OpenFile_def enter_def split: list.splits fault.splits option.splits if_splits)

lemma File_Close_effect:
  "File_Close f w = (err, w') \<Longrightarrow>
   trace w' = trace w @ [SysClose f] \<and> files w' = files w \<and> dirs w' = dirs w \<and>
   opened w' = (opened w)(f := None) \<and> next_file w' = next_file w \<and> clock w' = clock w \<and>
   ticks w' = ticks w \<and> Dir w' = Dir w"
  by (auto simp: File_Close_def enter_def split: list.splits)

lemma os_Rename_err:
  "os_Rename old new w = (Some e, w') \<Longrightarrow>
   trace w' = trace w @ [SysRename old new] \<and> files w' = files w \<and> dirs w' = dirs w \<and>
   opened w' = opened w \<and> next_file w' = next_file w \<and> clock w' = clock w \<and>
   ticks w' = ticks w \<and> Dir w' = Dir w"
  by (auto simp: os_Rename_def enter_def split: list.splits fault.splits option.splits if_splits)

lemma os_Rename_ok:
  "os_Rename old new w = (None, w') \<Longrightarrow>
   trace w' = trace w @ [SysRename old new] \<and>
   (\<exists>c. files w old = Some c \<and>
        files w' = (if old = new then files w else (files w)(old := None, new \<mapsto> c))) \<and>
   dirs w' = dirs w \<and>
   opened w' = opened w \<and> next_file w' = next_file w \<and> clock w' = clock w \<and>
   ticks w' = ticks w \<and> Dir w' = Dir w"
  by (auto simp: os_Rename_def enter_def split: list.splits fault.splits option.splits if_splits)

lemma time_Now_effect:
  "time_Now w = (t, w') \<Longrightarrow>
   t = clock w (ticks w) \<and>
   trace w' = trace w @ [SysNow] \<and> files w' = files w \<and> dirs w' = dirs w \<and>
   opened w' = opened w \<and> next_file w' = next_file w \<and> clock w' = clock w \<and>
   ticks w' = Suc (ticks w) \<and> Dir w' = Dir w"
  by (auto simp: time_Now_def)

lemma File_Write_effect:
  "File_Write f b w = ((n, err), w') \<Longrightarrow>
   trace w' = trace w @ [SysWrite f b] \<and> n \<le> length b \<and> (err = None \<longrightarrow> n = length b) \<and>
   dirs w' = dirs w \<and> next_file w' = next_file w \<and> clock w' = clock w \<and>
   ticks w' = ticks w \<and> Dir w' = Dir w \<and>
   (case opened w f of
      None \<Rightarrow> n = 0 \<and> err = Some ErrClosed \<and> files w' = files w \<and> opened w' = opened w
    | Some (name, k) \<Rightarrow>
        opened w' = (opened w)(f \<mapsto> (name, k + n)) \<and>
        files w' = (case files w name of
                      None \<Rightarrow> files w
                    | Some c \<Rightarrow> (files w)(name \<mapsto> c @ take n b)))"
  by (auto simp: File_Write_def enter_def Let_def split: list.splits fault.splits option.splits)

subsection \<open>Closing, creating and rotating\<close>

lemma closeFile_open:
  assumes "file l = Some f" and "closeFile l w = (err, l1, w1)"
  shows "File_Close f w = (err, w1)" and "l1 = l\<lparr>file := None\<rparr>"
  using assms by (auto simp: closeFile_def split: prod.splits)

lemma closeFile_result:
  assumes "closeFile l w = (err, l1, w1)"
  shows "file l1 = None" and "Filename l1 = Filename l" and "MaxSize l1 = MaxSize l"
    and "size' l1 = size' l"
  using assms by (auto simp: closeFile_def split: option.splits prod.splits)

lemma createFile_ok:
  assumes "createFile l w = (None, l1, w1)"
  shows "l1 = l\<lparr>file := Some (next_file w), size' := 0\<rparr>"
    and "trace w1 = trace w @ SysStat (Dir w (Filename l)) #
           (if IsNotExist (fst (os_Stat (Dir w (Filename l)) w))
            then [SysMkdir (Dir w (Filename l)) 511] else []) @
           [SysOpenFile (Filename l) [O_CREATE, O_APPEND, O_WRONLY] 438]"
    and "files w1 = (case files w (Filename l) of
                       None \<Rightarrow> (files w)(Filename l \<mapsto> []) | Some c \<Rightarrow> files w)"
    and "opened w1 = (opened w)(next_file w \<mapsto> (Filename l, 0))"
    and "Dir w1 = Dir w" and "clock w1 = clock w" and "ticks w1 = ticks w"
proof -
  let ?d = "Dir w (Filename l)"
  obtain e0 w0 where st: "os_Stat ?d w = (e0, w0)"
    by (cases "os_Stat ?d w")
  obtain e1 w2 where mk: "(if IsNotExist e0 then os_Mkdir ?d 511 w0 else (None, w0)) = (e1, w2)"
    by (cases "if IsNotExist e0 then os_Mkdir ?d 511 w0 else (None, w0)")
  obtain r w3 where op: "os_OpenFile (Filename l) [O_CREATE, O_APPEND, O_WRONLY] 438 w2 = (r, w3)"
    by (cases "os_OpenFile (Filename l) [O_CREATE, O_APPEND, O_WRONLY] 438 w2")
  from assms st mk op have e1: "e1 = None"
    by (cases e1) (simp_all add: createFile_def)
  from assms st mk op e1 obtain f where r: "r = Inr f" and res: "l1 = l\<lparr>file := Some f, size' := 0\<rparr>" "w1 = w3"
    by (cases r) (simp_all add: createFile_def)
  note s0 = os_Stat_effect [OF st]
  have s2: "trace w2 = trace w0 @ (if IsNotExist e0 then [SysMkdir ?d 511] else [])"
    "files w2 = files w0" "opened w2 = opened w0" "next_file w2 = next_file w0"
    "Dir w2 = Dir w0" "clock w2 = clock w0" "ticks w2 = ticks w0"
    using mk by (auto split: if_splits dest: os_Mkdir_effect)
  note s3 = os_OpenFile_ok [OF op [unfolded r]]
  show "l1 = l\<lparr>file := Some (next_file w), size' := 0\<rparr>"
    using res s3 s2 s0 by simp
  show "trace w1 = trace w @ SysStat ?d #
           (if IsNotExist (fst (os_Stat ?d w)) then [SysMkdir ?d 511] else []) @
           [SysOpenFile (Filename l) [O_CREATE, O_APPEND, O_WRONLY] 438]"
    using res s3 s2 s0 st by simp
  show "files w1 = (case files w (Filename l) of
                       None \<Rightarrow> (files w)(Filename l \<mapsto> []) | Some c \<Rightarrow> files w)"
    using res s3 s2 s0 by (simp split: option.splits)
  show "opened w1 = (opened w)(next_file w \<mapsto> (Filename l, 0))"
    using res s3 s2 s0 by simp
  show "Dir w1 = Dir w" "clock w1 = clock w" "ticks w1 = ticks w"
    using res s3 s2 s0 by simp_all
qed

lemma createFile_err:
  assumes "createFile l w = (Some e, l1, w1)"
  shows "l1 = l" and "files w1 = files w" and "opened w1 = opened w"
proof -
  let ?d = "Dir w (Filename l)"
  obtain e0 w0 where st: "os_Stat ?d w = (e0, w0)"
    by (cases "os_Stat ?d w")
  obtain e1 w2 where mk: "(if IsNotExist e0 then os_Mkdir ?d 511 w0 else (None, w0)) = (e1, w2)"
    by (cases "if IsNotExist e0 then os_Mkdir ?d 511 w0 else (None, w0)")
  obtain r w3 where op: "os_OpenFile (Filename l) [O_CREATE, O_APPEND, O_WRONLY] 438 w2 = (r, w3)"
    by (cases "os_OpenFile (Filename l) [O_CREATE, O_APPEND, O_WRONLY] 438 w2")
  note s0 = os_Stat_effect [OF st]
  have s2: "files w2 = files w0" "opened w2 = opened w0"
    using mk by (auto split: if_splits dest: os_Mkdir_effect)
  show "l1 = l"
    using assms st mk op by (cases e1; cases r) (simp_all add: createFile_def)
  show "files w1 = files w" "opened w1 = opened w"
  proof -
    have "files w1 = files w \<and> opened w1 = opened w"
    proof (cases e1)
      case (Some a)
      with assms st mk have "w1 = w2" by (simp add: createFile_def)
      with s2 s0 show ?thesis by simp
    next
      case None
      with assms st mk op obtain e' where r: "r = Inl e'" and "w1 = w3"
        by (cases r) (simp_all add: createFile_def)
      with os_OpenFile_err [OF op [unfolded r]] s2 s0 show ?thesis by simp
    qed
    then show "files w1 = files w" "opened w1 = opened w" by simp_all
  qed
qed

lemma createFile_calls:
  assumes "createFile l w = (r, l1, w1)"
  shows "\<exists>cs. trace w1 = trace w @ SysStat (Dir w (Filename l)) # cs \<and>
           set cs \<subseteq> {SysMkdir (Dir w (Filename l)) 511,
                     SysOpenFile (Filename l) [O_CREATE, O_APPEND, O_WRONLY] 438}"
proof -
  let ?d = "Dir w (Filename l)"
  let ?mk = "\<lambda>e. if IsNotExist e then [SysMkdir ?d 511] else []"
  let ?op = "SysOpenFile (Filename l) [O_CREATE, O_APPEND, O_WRONLY] 438"
  obtain e0 w0 where st: "os_Stat ?d w = (e0, w0)"
    by (cases "os_Stat ?d w")
  obtain e1 w2 where mk: "(if IsNotExist e0 then os_Mkdir ?d 511 w0 else (None, w0)) = (e1, w2)"
    by (cases "if IsNotExist e0 then os_Mkdir ?d 511 w0 else (None, w0)")
  obtain r' w3 where op: "os_OpenFile (Filename l) [O_CREATE, O_APPEND, O_WRONLY] 438 w2 = (r', w3)"
    by (cases "os_OpenFile (Filename l) [O_CREATE, O_APPEND, O_WRONLY] 438 w2")
  have t0: "trace w0 = trace w @ [SysStat ?d]"
    using os_Stat_effect [OF st] by simp
  have t2: "trace w2 = trace w0 @ ?mk e0"
    using mk by (auto split: if_splits dest: os_Mkdir_effect)
  have t3: "trace w3 = trace w2 @ [?op]"
    using op os_OpenFile_ok [of _ _ _ w2 _ w3] os_OpenFile_err [of _ _ _ w2 _ w3]
    by (cases r') simp_all
  have "w1 = w2 \<or> w1 = w3"
    using assms st mk op by (cases e1; cases r') (simp_all add: createFile_def)
  then show ?thesis
  proof
    assume "w1 = w2"
    with t0 t2 have "trace w1 = trace w @ SysStat ?d # ?mk e0"
      by simp
    moreover have "set (?mk e0) \<subseteq> {SysMkdir ?d 511, ?op}"
      by auto
    ultimately show ?thesis by blast
  next
    assume "w1 = w3"
    with t0 t2 t3 have "trace w1 = trace w @ SysStat ?d # (?mk e0 @ [?op])"
      by simp
    moreover have "set (?mk e0 @ [?op]) \<subseteq> {SysMkdir ?d 511, ?op}"
      by auto
    ultimately show ?thesis by blast
  qed
qed

lemma backupName_effect:
  assumes "backupName l w = (b, w')"
  shows "b = Filename l @ ''.'' @ Format (clock w (ticks w))"
    and "trace w' = trace w @ [SysNow]" and "files w' = files w" and "opened w' = opened w"
    and "next_file w' = next_file w" and "Dir w' = Dir w"
  using assms by (auto simp: backupName_def time_Now_def)

lemma rotateFile_err:
  assumes "rotateFile l w = (Some e, l1, w1)"
  shows "file l1 = None" and "Filename l1 = Filename l" and "MaxSize l1 = MaxSize l"
    and "size' l1 = size' l"
proof -
  obtain e0 l0 w0 where cl: "closeFile l w = (e0, l0, w0)"
    by (cases "closeFile l w")
  note c = closeFile_result [OF cl]
  obtain b w2 where bn: "backupName l0 w0 = (b, w2)"
    by (cases "backupName l0 w0")
  obtain e3 w3 where rn: "os_Rename (Filename l0) b w2 = (e3, w3)"
    by (cases "os_Rename (Filename l0) b w2")
  have "l1 = l0"
  proof (cases e0)
    case (Some a)
    with assms cl show ?thesis by (simp add: rotateFile_def)
  next
    case None
    show ?thesis
    proof (cases e3)
      case (Some a)
      with assms cl None bn rn show ?thesis by (simp add: rotateFile_def)
    next
      case n3: None
      with assms cl None bn rn have "createFile l0 w3 = (Some e, l1, w1)"
        by (simp add: rotateFile_def)
      then show ?thesis by (rule createFile_err(1))
    qed
  qed
  with c show "file l1 = None" "Filename l1 = Filename l" "MaxSize l1 = MaxSize l"
    "size' l1 = size' l" by simp_all
qed

lemma rotateFile_ok:
  assumes "file l = Some f" and "rotateFile l w = (None, l1, w1)"
  shows "l1 = l\<lparr>file := Some (next_file w), size' := 0\<rparr>"
    and "trace w1 = trace w @ [SysClose f, SysNow,
             SysRename (Filename l) (Filename l @ ''.'' @ Format (clock w (ticks w))),
             SysStat (Dir w (Filename l)),
             SysOpenFile (Filename l) [O_CREATE, O_APPEND, O_WRONLY] 438] \<or>
         trace w1 = trace w @ [SysClose f, SysNow,
             SysRename (Filename l) (Filename l @ ''.'' @ Format (clock w (ticks w))),
             SysStat (Dir w (Filename l)), SysMkdir (Dir w (Filename l)) 511,
             SysOpenFile (Filename l) [O_CREATE, O_APPEND, O_WRONLY] 438]"
    and "files w (Filename l) \<noteq> None"
    and "files w1 = (files w)(Filename l @ ''.'' @ Format (clock w (ticks w)) := files w (Filename l),
                              Filename l \<mapsto> [])"
    and "opened w1 = (opened w)(f := None, next_file w \<mapsto> (Filename l, 0))"
proof -
  let ?P = "Filename l"
  let ?B = "Filename l @ ''.'' @ Format (clock w (ticks w))"
  obtain e0 l0 w0 where cl: "closeFile l w = (e0, l0, w0)"
    by (cases "closeFile l w")
  have l0: "l0 = l\<lparr>file := None\<rparr>" and fc: "File_Close f w = (e0, w0)"
    using closeFile_open [OF assms(1) cl] by simp_all
  note s0 = File_Close_effect [OF fc]
  obtain b w2 where bn: "backupName l0 w0 = (b, w2)"
    by (cases "backupName l0 w0")
  note s2 = backupName_effect [OF bn]
  obtain e3 w3 where rn: "os_Rename (Filename l0) b w2 = (e3, w3)"
    by (cases "os_Rename (Filename l0) b w2")
  from assms(2) cl have e0: "e0 = None"
    by (cases e0) (simp_all add: rotateFile_def)
  from assms(2) cl e0 bn rn have e3: "e3 = None"
    by (cases e3) (simp_all add: rotateFile_def)
  from assms(2) cl e0 bn rn e3 have cr: "createFile l0 w3 = (None, l1, w1)"
    by (simp add: rotateFile_def)
  have b: "b = ?B" using s2(1) l0 s0 by simp
  note s3 = os_Rename_ok [OF rn [unfolded e3]]
  from s3 obtain c where c: "files w2 (Filename l0) = Some c"
    "files w3 = (if Filename l0 = b then files w2 else (files w2)(Filename l0 := None, b \<mapsto> c))"
    by blast
  have ne: "?P \<noteq> ?B" by simp
  have fP: "files w ?P = Some c" using c(1) s2 s0 l0 by simp
  have f3: "files w3 = (files w)(?P := None, ?B \<mapsto> c)"
    using c(2) b ne l0 s2 s0 by simp
  have o3: "opened w3 = (opened w)(f := None)" "next_file w3 = next_file w" "Dir w3 = Dir w"
    "trace w3 = trace w @ [SysClose f, SysNow, SysRename ?P ?B]"
    using s3 s2 s0 b l0 by simp_all
  note s4 = createFile_ok [OF cr]
  show "l1 = l\<lparr>file := Some (next_file w), size' := 0\<rparr>"
    using s4(1) o3 l0 by simp
  show "files w ?P \<noteq> None" using fP by simp
  show "files w1 = (files w)(?B := files w ?P, ?P \<mapsto> [])"
    using s4(3) f3 fP l0 ne by (auto simp: fun_upd_twist)
  show "opened w1 = (opened w)(f := None, next_file w \<mapsto> (?P, 0))"
    using s4(4) o3 l0 by simp
  show "trace w1 = trace w @ [SysClose f, SysNow, SysRename ?P ?B, SysStat (Dir w ?P),
             SysOpenFile ?P [O_CREATE, O_APPEND, O_WRONLY] 438] \<or>
         trace w1 = trace w @ [SysClose f, SysNow, SysRename ?P ?B,
             SysStat (Dir w ?P), SysMkdir (Dir w ?P) 511,
             SysOpenFile ?P [O_CREATE, O_APPEND, O_WRONLY] 438]"
    using s4(2) o3 l0 by (cases "IsNotExist (fst (os_Stat (Dir w3 (Filename l0)) w3))") simp_all
qed

lemma rotateFile_calls:
  assumes "file l = Some f" and "rotateFile l w = (r, l1, w1)"
  shows "\<exists>cs. trace w1 = trace w @ SysClose f # cs \<and> (\<forall>c\<in>set cs. \<not> is_write c)"
proof -
  obtain e0 l0 w0 where cl: "closeFile l w = (e0, l0, w0)"
    by (cases "closeFile l w")
  have t0: "trace w0 = trace w @ [SysClose f]"
    using closeFile_open(1) [OF assms(1) cl] by (simp add: File_Close_effect)
  obtain b w2 where bn: "backupName l0 w0 = (b, w2)"
    by (cases "backupName l0 w0")
  have t2: "trace w2 = trace w0 @ [SysNow]" by (rule backupName_effect(2) [OF bn])
  obtain e3 w3 where rn: "os_Rename (Filename l0) b w2 = (e3, w3)"
    by (cases "os_Rename (Filename l0) b w2")
  have t3: "trace w3 = trace w2 @ [SysRename (Filename l0) b]"
    using rn os_Rename_ok [of _ _ w2 w3] os_Rename_err [of _ _ w2 _ w3] by (cases e3) simp_all
  obtain r4 l4 w4 where cr: "createFile l0 w3 = (r4, l4, w4)"
    by (cases "createFile l0 w3")
  from createFile_calls [OF cr] obtain cs4 where
    cs4: "trace w4 = trace w3 @ SysStat (Dir w3 (Filename l0)) # cs4"
      "set cs4 \<subseteq> {SysMkdir (Dir w3 (Filename l0)) 511,
                   SysOpenFile (Filename l0) [O_CREATE, O_APPEND, O_WRONLY] 438}"
    by blast
  from cs4(2) have nw4: "\<forall>c\<in>set cs4. \<not> is_write c" by auto
  have "w1 = w0 \<or> w1 = w3 \<or> w1 = w4"
    using assms(2) cl bn rn cr by (cases e0; cases e3) (simp_all add: rotateFile_def)
  then consider "w1 = w0" | "w1 = w3" | "w1 = w4" by blast
  then show ?thesis
  proof cases
    case 1
    with t0 have "trace w1 = trace w @ SysClose f # []" by simp
    then show ?thesis by (intro exI [of _ "[]"]) simp
  next
    case 2
    with t0 t2 t3 have "trace w1 = trace w @ SysClose f # [SysNow, SysRename (Filename l0) b]"
      by simp
    then show ?thesis by (intro exI [of _ "[SysNow, SysRename (Filename l0) b]"]) simp
  next
    case 3
    with t0 t2 t3 cs4(1) have
      "trace w1 = trace w @ SysClose f #
         ([SysNow, SysRename (Filename l0) b, SysStat (Dir w3 (Filename l0))] @ cs4)"
      by simp
    moreover have
      "\<forall>c\<in>set ([SysNow, SysRename (Filename l0) b, SysStat (Dir w3 (Filename l0))] @ cs4).
         \<not> is_write c"
      using nw4 by simp
    ultimately show ?thesis by blast
  qed
qed

subsection \<open>Construction\<close>

text \<open>
  C5, as stated, does not hold: the threshold is the product \<^verbatim>\<open>size * megabyte\<close> of two
  \<^verbatim>\<open>int64\<close>, and it wraps around. Asking for \<^verbatim>\<open>math.MaxInt64\<close> megabytes gives a
  threshold of \<open>-1048576\<close> bytes, which is neither \<open>max(requested, 1) * 1048576\<close> nor at
  least 1 MiB.
\<close>

theorem NewLogrotate_wraps_counterexample:
  "sint (MaxSize (NewLogrotate ''logs/app.log'' 9223372036854775807))
     \<noteq> max (sint (9223372036854775807 :: int64)) 1 * 1048576 \<and>
   sint (MaxSize (NewLogrotate ''logs/app.log'' 9223372036854775807)) < 1048576"
  by (simp add: NewLogrotate_def defaultSize_def megabyte_def)

text \<open>
  C5, amended: for every path and every requested number of megabytes below \<open>2 ^ 43\<close>
  (zero and negative values included), the threshold of the constructed writer is
  \<open>max(requested, 1) * 1048576\<close> bytes, so at least 1 MiB; the writer has the given path, no
  open file and a counter of 0. \<open>NewLogrotate\<close> neither takes nor returns a world and
  returns no error: construction touches no file and cannot fail.
\<close>

theorem NewLogrotate_threshold:
  assumes "sint mb < 2 ^ 43"
  shows "sint (MaxSize (NewLogrotate filename mb)) = max (sint mb) 1 * 1048576 \<and>
         1048576 \<le> sint (MaxSize (NewLogrotate filename mb)) \<and>
         Filename (NewLogrotate filename mb) = filename \<and>
         file (NewLogrotate filename mb) = None \<and>
         size' (NewLogrotate filename mb) = 0"
  using assms
  by (simp add: NewLogrotate_def defaultSize_def megabyte_def sint_mult64 max_def)

theorem NewLogrotate_threshold_witness:
  "sint (- 3 :: int64) < 2 ^ 43 \<and>
   sint (MaxSize (NewLogrotate ''logs/app.log'' (- 3))) = 1048576 \<and>
   file (NewLogrotate ''logs/app.log'' (- 3)) = None"
  using NewLogrotate_threshold [of "- 3" "''logs/app.log''"] by simp

subsection \<open>Oversized payloads\<close>

text \<open>
  C2: a payload longer than the threshold is refused: \<open>Write\<close> returns 0 bytes and an error,
  and the writer and the world come back as they were: no call was made (the trace
  is part of the world), no file was created or changed, the handle and the counter are
  untouched. This holds in every writer state and every world. (A Go slice has fewer
  than \<open>2 ^ 63\<close> elements.)
\<close>

theorem Write_too_long:
  assumes "length p < 2 ^ 63"
    and "sint (MaxSize l) < int (length p)"
  shows "Write l p w =
         ((0, Some (ErrorsNew ''write length exceeds maximum file size'')), l, w)"
  using assms by (simp add: Write_def sint_of_nat_len)

theorem Write_too_long_witness:
  "length (replicate 1572864 (0 :: byte)) < 2 ^ 63 \<and>
   sint (MaxSize (NewLogrotate ''logs/app.log'' 1)) < int (length (replicate 1572864 (0 :: byte))) \<and>
   Write (NewLogrotate ''logs/app.log'' 1) (replicate 1572864 0) example_world =
     ((0, Some (ErrorsNew ''write length exceeds maximum file size'')),
      NewLogrotate ''logs/app.log'' 1, example_world)"
proof -
  have len: "length (replicate 1572864 (0 :: byte)) < 2 ^ 63"
    by simp
  have big: "sint (MaxSize (NewLogrotate ''logs/app.log'' 1))
               < int (length (replicate 1572864 (0 :: byte)))"
    by (simp add: NewLogrotate_def defaultSize_def megabyte_def)
  show ?thesis
    using len big Write_too_long [OF len big, of example_world] by simp
qed

subsection \<open>Close\<close>

text \<open>
  C6: \<open>Close\<close> with no open file returns no error and changes nothing (it makes no call).
  After any \<open>Close\<close>, failed or not, the writer has no open file, so a second \<open>Close\<close>
  right after it returns no error and changes nothing.
\<close>

theorem Close_idempotent:
  "(file l = None \<longrightarrow> Close l w = (None, l, w)) \<and>
   (case Close l w of (err, l1, w1) \<Rightarrow> file l1 = None \<and> Close l1 w1 = (None, l1, w1))"
  by (simp add: Close_def closeFile_def split: option.splits prod.splits)

theorem Close_idempotent_witness:
  "file (NewLogrotate ''logs/app.log'' 1) = None \<and>
   Close (NewLogrotate ''logs/app.log'' 1) example_world =
     (None, NewLogrotate ''logs/app.log'' 1, example_world) \<and>
   (case Close open_writer failing_close_world of
      (err, l1, w1) \<Rightarrow>
        err = Some (PathError EIO) \<and> file l1 = None \<and> Close l1 w1 = (None, l1, w1))"
proof -
  have "fst (Close open_writer failing_close_world) = Some (PathError EIO)"
    by (simp add: Close_def closeFile_def File_Close_def enter_def open_writer_def
        failing_close_world_def open_world_def)
  with Close_idempotent [of "NewLogrotate ''logs/app.log'' 1" example_world]
    Close_idempotent [of open_writer failing_close_world]
  show ?thesis
    by (auto simp: NewLogrotate_def split: prod.splits)
qed

subsection \<open>The three ways through a \<open>Write\<close> that is not refused\<close>

lemma Write_open_direct:
  assumes "file l = Some f"
    and "\<not> sint (MaxSize l) < sint (of_nat (length p) :: int64)"
    and "\<not> sint (MaxSize l) < sint (of_nat (length p) + size' l)"
  shows "Write l p w =
         (case File_Write f p w of
            ((n, err), w3) \<Rightarrow> ((n, err), l\<lparr>size' := size' l + of_nat n\<rparr>, w3))"
  using assms by (simp add: Write_def)

lemma Write_open_rotate:
  assumes "file l = Some f"
    and "\<not> sint (MaxSize l) < sint (of_nat (length p) :: int64)"
    and "sint (MaxSize l) < sint (of_nat (length p) + size' l)"
  shows "Write l p w =
         (case rotateFile l w of
            (Some e, l2, w2) \<Rightarrow> ((0, Some e), l2, w2)
          | (None, l2, w2) \<Rightarrow>
              (case File_Write (next_file w) p w2 of
                 ((n, err), w3) \<Rightarrow> ((n, err), l2\<lparr>size' := of_nat n\<rparr>, w3)))"
proof -
  obtain r l2 w2 where rot: "rotateFile l w = (r, l2, w2)"
    by (cases "rotateFile l w")
  show ?thesis
  proof (cases r)
    case (Some e)
    with assms rot show ?thesis by (simp add: Write_def)
  next
    case None
    from rotateFile_ok(1) [OF assms(1) rot [unfolded None]]
    have "file l2 = Some (next_file w)" "size' l2 = 0" by simp_all
    with assms rot None show ?thesis by (simp add: Write_def)
  qed
qed

lemma Write_closed:
  assumes "file l = None"
    and "\<not> sint (MaxSize l) < sint (of_nat (length p) :: int64)"
  shows "Write l p w =
         (case createFile l w of
            (Some e, l1, w1) \<Rightarrow> ((0, Some e), l1, w1)
          | (None, l1, w1) \<Rightarrow>
              (case File_Write (next_file w) p w1 of
                 ((n, err), w3) \<Rightarrow> ((n, err), l1\<lparr>size' := of_nat n\<rparr>, w3)))"
proof -
  obtain r l1 w1 where cr: "createFile l w = (r, l1, w1)"
    by (cases "createFile l w")
  show ?thesis
  proof (cases r)
    case (Some e)
    with assms cr show ?thesis by (simp add: Write_def)
  next
    case None
    from createFile_ok(1) [OF cr [unfolded None]]
    have "file l1 = Some (next_file w)" "size' l1 = 0" "MaxSize l1 = MaxSize l" by simp_all
    with assms cr None show ?thesis by (simp add: Write_def)
  qed
qed

text \<open>Unfolding everything, to run the code on the example inputs.\<close>

lemmas eval_defs = rotateFile_def closeFile_def File_Close_def enter_def backupName_def
  time_Now_def os_Rename_def createFile_def os_Stat_def os_Mkdir_def os_OpenFile_def
  Format_def appendInt_def decimal.simps digit_def

subsection \<open>Rotation\<close>



text \<open>
  C7: when the close inside a rotation fails, the rotation stops there: \<open>rotateFile\<close> and
  \<open>Write\<close> return the error of the close, \<open>Write\<close> with 0 bytes written; the only call
  made is the close (no rename, no stat, no open); the writer is left with no open file,
  and the files are as they were, the original one still under its name. (The second and
  third hypotheses are the two tests of \<open>Write\<close>: the payload is not refused and the rotation
  is due.)
\<close>

theorem Write_close_fails:
  assumes "file l = Some f"
    and "\<not> sint (MaxSize l) < sint (of_nat (length p) :: int64)"
    and "sint (MaxSize l) < sint (of_nat (length p) + size' l)"
    and "File_Close f w = (Some e, w1)"
  shows "rotateFile l w = (Some e, l\<lparr>file := None\<rparr>, w1) \<and>
         Write l p w = ((0, Some e), l\<lparr>file := None\<rparr>, w1) \<and>
         trace w1 = trace w @ [SysClose f] \<and>
         files w1 = files w \<and> dirs w1 = dirs w \<and> opened w1 f = None"
proof -
  have cl: "closeFile l w = (Some e, l\<lparr>file := None\<rparr>, w1)"
    using assms(1,4) by (simp add: closeFile_def)
  then have rot: "rotateFile l w = (Some e, l\<lparr>file := None\<rparr>, w1)"
    by (simp add: rotateFile_def)
  with Write_open_rotate [OF assms(1,2,3), of w]
  have "Write l p w = ((0, Some e), l\<lparr>file := None\<rparr>, w1)" by simp
  with rot File_Close_effect [OF assms(4)] show ?thesis by simp
qed

theorem Write_close_fails_witness:
  "file open_writer = Some 3 \<and>
   \<not> sint (MaxSize open_writer) < sint (of_nat (length (replicate 614400 (66 :: byte))) :: int64) \<and>
   sint (MaxSize open_writer)
     < sint (of_nat (length (replicate 614400 (66 :: byte))) + size' open_writer) \<and>
   fst (File_Close 3 failing_close_world) = Some (PathError EIO) \<and>
   Write open_writer (replicate 614400 66) failing_close_world =
     ((0, Some (PathError EIO)), open_writer\<lparr>file := None\<rparr>,
      snd (File_Close 3 failing_close_world)) \<and>
   trace (snd (File_Close 3 failing_close_world)) = [SysClose 3] \<and>
   files (snd (File_Close 3 failing_close_world)) ''logs/app.log'' = Some (replicate 614400 65)"
proof -
  let ?p = "replicate 614400 (66 :: byte)"
  have h1: "file open_writer = Some 3"
    by (simp add: open_writer_def)
  have h2: "\<not> sint (MaxSize open_writer) < sint (of_nat (length ?p) :: int64)"
    by (simp add: open_writer_def)
  have h3: "sint (MaxSize open_writer) < sint (of_nat (length ?p) + size' open_writer)"
    by (simp add: open_writer_def)
  have e: "fst (File_Close 3 failing_close_world) = Some (PathError EIO)"
    by (simp add: File_Close_def enter_def failing_close_world_def open_world_def)
  then have h4: "File_Close 3 failing_close_world =
      (Some (PathError EIO), snd (File_Close 3 failing_close_world))"
    by (simp add: prod_eq_iff)
  have f: "files failing_close_world ''logs/app.log'' = Some (replicate 614400 65)"
    "trace failing_close_world = []"
    by (simp_all add: failing_close_world_def open_world_def)
  from Write_close_fails [OF h1 h2 h3 h4] h1 h2 h3 e f show ?thesis
    by simp
qed

subsection \<open>The counter\<close>







subsection \<open>One payload, one write\<close>

text \<open>
  C4: whatever \<open>Write\<close> returns, the calls it made are of one of two shapes. Either none
  of them is a write: then 0 bytes are reported, with an error, and the counter is as it
  was. Or exactly one is a write, the last call, and it carries the whole payload to the
  file the writer holds afterwards, which is the file it held before (when no other call
  was made) or the one just opened (after a creation or a rotation): so a payload never
  goes to two files. The number \<open>n\<close> of bytes written is at most \<open>len(p)\<close>, a short write
  comes with an error, and the counter has grown by exactly \<open>n\<close>, from its old value, or
  from 0 when the file was just opened.
\<close>

theorem Write_one_write:
  assumes "Write l p w = ((n, err), l', w')"
  shows "(\<exists>pre. trace w' = trace w @ pre \<and> (\<forall>c\<in>set pre. \<not> is_write c) \<and>
            n = 0 \<and> err \<noteq> None \<and> size' l' = size' l) \<or>
         (\<exists>pre f. trace w' = trace w @ pre @ [SysWrite f p] \<and> (\<forall>c\<in>set pre. \<not> is_write c) \<and>
            file l' = Some f \<and> (file l = Some f \<and> pre = [] \<or> f = next_file w) \<and>
            n \<le> length p \<and> (n < length p \<longrightarrow> err \<noteq> None) \<and>
            size' l' = (if pre = [] then size' l else 0) + of_nat n)"
    (is "?stop \<or> ?wrote")
proof (cases "sint (MaxSize l) < sint (of_nat (length p) :: int64)")
  case True
  with assms have "n = 0" "err \<noteq> None" "l' = l" "w' = w"
    by (auto simp: Write_def)
  then have ?stop by simp
  then show ?thesis ..
next
  case acc: False
  show ?thesis
  proof (cases "file l")
    case None
    note Wc = Write_closed [OF None acc, of w]
    obtain e l1 w1 where cr: "createFile l w = (e, l1, w1)"
      by (cases "createFile l w")
    from createFile_calls [OF cr] obtain cs where
      cs: "trace w1 = trace w @ SysStat (Dir w (Filename l)) # cs"
        "set cs \<subseteq> {SysMkdir (Dir w (Filename l)) 511,
                    SysOpenFile (Filename l) [O_CREATE, O_APPEND, O_WRONLY] 438}"
      by blast
    from cs(2) have nw: "\<forall>c\<in>set (SysStat (Dir w (Filename l)) # cs). \<not> is_write c"
      by auto
    show ?thesis
    proof (cases e)
      case (Some a)
      with Wc cr assms createFile_err(1) [of l w a l1 w1]
      have "n = 0" "err \<noteq> None" "l' = l" "w' = w1" by simp_all
      with cs(1) nw have ?stop by blast
      then show ?thesis ..
    next
      case e: None
      note ok = createFile_ok [OF cr [unfolded e]]
      obtain m er w3 where fw: "File_Write (next_file w) p w1 = ((m, er), w3)"
        by (cases "File_Write (next_file w) p w1") auto
      note fe = File_Write_effect [OF fw]
      from Wc cr e fw assms have res: "n = m" "err = er" "l' = l1\<lparr>size' := of_nat m\<rparr>" "w' = w3"
        by simp_all
      have "trace w' = trace w @ (SysStat (Dir w (Filename l)) # cs) @ [SysWrite (next_file w) p]"
        using res fe cs(1) by simp
      moreover have "file l' = Some (next_file w)" "size' l' = 0 + of_nat n"
        using res ok(1) by simp_all
      moreover have "n \<le> length p" "n < length p \<longrightarrow> err \<noteq> None"
        using res fe by auto
      ultimately have ?wrote
        using nw by (intro exI [of _ "SysStat (Dir w (Filename l)) # cs"] exI [of _ "next_file w"]) simp
      then show ?thesis ..
    qed
  next
    case (Some f)
    show ?thesis
    proof (cases "sint (MaxSize l) < sint (of_nat (length p) + size' l)")
      case True
      note Wr = Write_open_rotate [OF Some acc True, of w]
      obtain e l2 w2 where rot: "rotateFile l w = (e, l2, w2)"
        by (cases "rotateFile l w")
      from rotateFile_calls [OF Some rot] obtain cs where
        cs: "trace w2 = trace w @ SysClose f # cs" "\<forall>c\<in>set cs. \<not> is_write c"
        by blast
      from cs(2) have nw: "\<forall>c\<in>set (SysClose f # cs). \<not> is_write c" by simp
      show ?thesis
      proof (cases e)
        case (Some a)
        with Wr rot assms have "n = 0" "err \<noteq> None" "l' = l2" "w' = w2" by simp_all
        with rotateFile_err(4) [OF rot [unfolded Some]] cs(1) nw have ?stop by blast
        then show ?thesis ..
      next
        case e: None
        note ok = rotateFile_ok [OF Some rot [unfolded e]]
        obtain m er w3 where fw: "File_Write (next_file w) p w2 = ((m, er), w3)"
          by (cases "File_Write (next_file w) p w2") auto
        note fe = File_Write_effect [OF fw]
        from Wr rot e fw assms have res: "n = m" "err = er" "l' = l2\<lparr>size' := of_nat m\<rparr>" "w' = w3"
          by simp_all
        have "trace w' = trace w @ (SysClose f # cs) @ [SysWrite (next_file w) p]"
          using res fe cs(1) by simp
        moreover have "file l' = Some (next_file w)" "size' l' = 0 + of_nat n"
          using res ok(1) by simp_all
        moreover have "n \<le> length p" "n < length p \<longrightarrow> err \<noteq> None"
          using res fe by auto
        ultimately have ?wrote
          using nw by (intro exI [of _ "SysClose f # cs"] exI [of _ "next_file w"]) simp
        then show ?thesis ..
      qed
    next
      case False
      note Wd = Write_open_direct [OF Some acc False, of w]
      obtain m er w3 where fw: "File_Write f p w = ((m, er), w3)"
        by (cases "File_Write f p w") auto
      note fe = File_Write_effect [OF fw]
      from Wd fw assms have res: "n = m" "err = er" "l' = l\<lparr>size' := size' l + of_nat m\<rparr>" "w' = w3"
        by simp_all
      have "trace w' = trace w @ [] @ [SysWrite f p]"
        using res fe by simp
      moreover have "file l' = Some f" "size' l' = size' l + of_nat n"
        using res Some by simp_all
      moreover have "n \<le> length p" "n < length p \<longrightarrow> err \<noteq> None"
        using res fe by auto
      ultimately have ?wrote
        using Some by (intro exI [of _ "[]"] exI [of _ f]) simp
      then show ?thesis ..
    qed
  qed
qed

theorem Write_one_write_witness:
  "fst (Write open_writer (replicate 1000 66) short_write_world) = (100, Some ErrShortWrite) \<and>
   (\<exists>pre f. trace (snd (snd (Write open_writer (replicate 1000 66) short_write_world))) =
        trace short_write_world @ pre @ [SysWrite f (replicate 1000 66)] \<and>
      (\<forall>c\<in>set pre. \<not> is_write c) \<and>
      file (fst (snd (Write open_writer (replicate 1000 66) short_write_world))) = Some f \<and>
      size' (fst (snd (Write open_writer (replicate 1000 66) short_write_world))) =
        (if pre = [] then 614400 else 0) + 100) \<and>
   size' (fst (snd (Write open_writer (replicate 1000 66) short_write_world))) = 614500 \<and>
   trace (snd (snd (Write open_writer (replicate 1000 66) short_write_world))) =
     [SysWrite 3 (replicate 1000 66)] \<and>
   files (snd (snd (Write open_writer (replicate 1000 66) short_write_world))) ''logs/app.log'' =
     Some (replicate 614400 65 @ replicate 100 66)"
proof -
  let ?p = "replicate 1000 (66 :: byte)"
  let ?W = "Write open_writer ?p short_write_world"
  have ev: "fst ?W = (100, Some ErrShortWrite)"
    "size' (fst (snd ?W)) = 614500"
    "trace (snd (snd ?W)) = [SysWrite 3 ?p]"
    "files (snd (snd ?W)) ''logs/app.log'' = Some (replicate 614400 65 @ replicate 100 66)"
    by (simp_all add: Write_def File_Write_def enter_def open_writer_def open_world_def
        short_write_world_def)
  then have eq: "?W = ((100, Some ErrShortWrite), fst (snd ?W), snd (snd ?W))"
    by (simp add: prod_eq_iff)
  have s: "size' open_writer = 614400"
    by (simp add: open_writer_def)
  from Write_one_write [OF eq] s ev show ?thesis
    by simp
qed

subsection \<open>The two tests are strict\<close>

lemma Write_accepted_calls:
  assumes "\<not> sint (MaxSize l) < sint (of_nat (length p) :: int64)"
  shows "trace (snd (snd (Write l p w))) \<noteq> trace w"
proof -
  obtain n err l' w' where W: "Write l p w = ((n, err), l', w')"
    by (cases "Write l p w") auto
  have "\<exists>c cs. trace w' = trace w @ c # cs"
  proof (cases "file l")
    case None
    note Wc = Write_closed [OF None assms, of w]
    obtain e l1 w1 where cr: "createFile l w = (e, l1, w1)"
      by (cases "createFile l w")
    from createFile_calls [OF cr] obtain cs where
      cs: "trace w1 = trace w @ SysStat (Dir w (Filename l)) # cs" by blast
    show ?thesis
    proof (cases e)
      case (Some a)
      with Wc cr W have "w' = w1" by simp
      with cs show ?thesis by blast
    next
      case e: None
      obtain m er w3 where fw: "File_Write (next_file w) p w1 = ((m, er), w3)"
        by (cases "File_Write (next_file w) p w1") auto
      from Wc cr e fw W have "w' = w3" by simp
      with File_Write_effect [OF fw] cs
      have "trace w' = trace w @ SysStat (Dir w (Filename l)) # (cs @ [SysWrite (next_file w) p])"
        by simp
      then show ?thesis by blast
    qed
  next
    case (Some f)
    show ?thesis
    proof (cases "sint (MaxSize l) < sint (of_nat (length p) + size' l)")
      case True
      note Wr = Write_open_rotate [OF Some assms True, of w]
      obtain e l2 w2 where rot: "rotateFile l w = (e, l2, w2)"
        by (cases "rotateFile l w")
      from rotateFile_calls [OF Some rot] obtain cs where
        cs: "trace w2 = trace w @ SysClose f # cs" by blast
      show ?thesis
      proof (cases e)
        case (Some a)
        with Wr rot W have "w' = w2" by simp
        with cs show ?thesis by blast
      next
        case e: None
        obtain m er w3 where fw: "File_Write (next_file w) p w2 = ((m, er), w3)"
          by (cases "File_Write (next_file w) p w2") auto
        from Wr rot e fw W have "w' = w3" by simp
        with File_Write_effect [OF fw] cs
        have "trace w' = trace w @ SysClose f # (cs @ [SysWrite (next_file w) p])"
          by simp
        then show ?thesis by blast
      qed
    next
      case False
      note Wd = Write_open_direct [OF Some assms False, of w]
      obtain m er w3 where fw: "File_Write f p w = ((m, er), w3)"
        by (cases "File_Write f p w") auto
      from Wd fw W have "w' = w3" by simp
      with File_Write_effect [OF fw] have "trace w' = trace w @ SysWrite f p # []" by simp
      then show ?thesis by blast
    qed
  qed
  with W show ?thesis by auto
qed

lemma Write_closed_calls:
  assumes "file l = None"
    and "\<not> sint (MaxSize l) < sint (of_nat (length p) :: int64)"
  shows "\<exists>cs. trace (snd (snd (Write l p w))) = trace w @ cs \<and>
           set cs \<subseteq> {SysStat (Dir w (Filename l)), SysMkdir (Dir w (Filename l)) 511,
                     SysOpenFile (Filename l) [O_CREATE, O_APPEND, O_WRONLY] 438,
                     SysWrite (next_file w) p}"
proof -
  note Wc = Write_closed [OF assms, of w]
  obtain e l1 w1 where cr: "createFile l w = (e, l1, w1)"
    by (cases "createFile l w")
  from createFile_calls [OF cr] obtain cs where
    cs: "trace w1 = trace w @ SysStat (Dir w (Filename l)) # cs"
      "set cs \<subseteq> {SysMkdir (Dir w (Filename l)) 511,
                  SysOpenFile (Filename l) [O_CREATE, O_APPEND, O_WRONLY] 438}"
    by blast
  show ?thesis
  proof (cases e)
    case (Some a)
    with Wc cr have "snd (snd (Write l p w)) = w1" by simp
    with cs(1) have "trace (snd (snd (Write l p w))) = trace w @ (SysStat (Dir w (Filename l)) # cs)"
      by simp
    moreover have "set (SysStat (Dir w (Filename l)) # cs) \<subseteq>
        {SysStat (Dir w (Filename l)), SysMkdir (Dir w (Filename l)) 511,
         SysOpenFile (Filename l) [O_CREATE, O_APPEND, O_WRONLY] 438, SysWrite (next_file w) p}"
      using cs(2) by auto
    ultimately show ?thesis by blast
  next
    case e: None
    obtain m er w3 where fw: "File_Write (next_file w) p w1 = ((m, er), w3)"
      by (cases "File_Write (next_file w) p w1") auto
    from Wc cr e fw have "snd (snd (Write l p w)) = w3" by simp
    with File_Write_effect [OF fw] cs(1)
    have "trace (snd (snd (Write l p w))) =
        trace w @ (SysStat (Dir w (Filename l)) # cs @ [SysWrite (next_file w) p])"
      by simp
    moreover have "set (SysStat (Dir w (Filename l)) # cs @ [SysWrite (next_file w) p]) \<subseteq>
        {SysStat (Dir w (Filename l)), SysMkdir (Dir w (Filename l)) 511,
         SysOpenFile (Filename l) [O_CREATE, O_APPEND, O_WRONLY] 438, SysWrite (next_file w) p}"
      using cs(2) by auto
    ultimately show ?thesis by blast
  qed
qed

text \<open>
  C9: a payload exactly as long as the threshold is not refused: \<open>Write\<close> goes on to call
  the operating system (a refused payload causes no call). With a file open and a counter
  that the payload brings exactly to the threshold, \<open>Write\<close> is the write to that file and
  nothing else: no rotation. With no file open (a fresh writer), a payload exactly as long
  as the threshold is written to the file just created, and the calls made are among stat,
  mkdir, open and that write: no close, no rename.
\<close>

theorem Write_exact_threshold:
  "(int (length p) = sint (MaxSize l) \<longrightarrow> trace (snd (snd (Write l p w))) \<noteq> trace w) \<and>
   (file l = Some f \<and> 0 \<le> sint (size' l) \<and>
    sint (size' l) + int (length p) = sint (MaxSize l) \<longrightarrow>
      Write l p w =
        (case File_Write f p w of
           ((n, err), w') \<Rightarrow> ((n, err), l\<lparr>size' := size' l + of_nat n\<rparr>, w')) \<and>
      trace (snd (snd (Write l p w))) = trace w @ [SysWrite f p]) \<and>
   (file l = None \<and> int (length p) = sint (MaxSize l) \<longrightarrow>
      Write l p w =
        (case createFile l w of
           (Some e, l1, w1) \<Rightarrow> ((0, Some e), l1, w1)
         | (None, l1, w1) \<Rightarrow>
             (case File_Write (next_file w) p w1 of
                ((n, err), w') \<Rightarrow> ((n, err), l1\<lparr>size' := of_nat n\<rparr>, w'))) \<and>
      (\<exists>cs. trace (snd (snd (Write l p w))) = trace w @ cs \<and>
         set cs \<subseteq> {SysStat (Dir w (Filename l)), SysMkdir (Dir w (Filename l)) 511,
                   SysOpenFile (Filename l) [O_CREATE, O_APPEND, O_WRONLY] 438,
                   SysWrite (next_file w) p}))"
proof (intro conjI impI)
  assume eq: "int (length p) = sint (MaxSize l)"
  then have "length p < 2 ^ 63"
    using sint_bounds64(2) [of "MaxSize l"] by simp
  with eq have "\<not> sint (MaxSize l) < sint (of_nat (length p) :: int64)"
    by (simp add: sint_of_nat_len)
  then show "trace (snd (snd (Write l p w))) \<noteq> trace w"
    by (rule Write_accepted_calls)
next
  assume a: "file l = Some f \<and> 0 \<le> sint (size' l) \<and>
    sint (size' l) + int (length p) = sint (MaxSize l)"
  then have len: "length p < 2 ^ 63"
    using sint_bounds64(2) [of "MaxSize l"] by simp
  then have wl: "sint (of_nat (length p) :: int64) = int (length p)"
    by (rule sint_of_nat_len)
  have acc: "\<not> sint (MaxSize l) < sint (of_nat (length p) :: int64)"
    using a wl by simp
  have "sint (of_nat (length p) + size' l) = int (length p) + sint (size' l)"
    using a wl sint_bounds64(2) [of "MaxSize l"] by (simp add: sint_add64)
  with a have norot: "\<not> sint (MaxSize l) < sint (of_nat (length p) + size' l)"
    by simp
  from a have f: "file l = Some f" by simp
  note Wd = Write_open_direct [OF f acc norot, of w]
  obtain n err w' where fw: "File_Write f p w = ((n, err), w')"
    by (cases "File_Write f p w") auto
  show "Write l p w =
        (case File_Write f p w of
           ((n, err), w') \<Rightarrow> ((n, err), l\<lparr>size' := size' l + of_nat n\<rparr>, w'))"
    by (rule Wd)
  show "trace (snd (snd (Write l p w))) = trace w @ [SysWrite f p]"
    using Wd fw File_Write_effect [OF fw] by simp
next
  assume a: "file l = None \<and> int (length p) = sint (MaxSize l)"
  then have "length p < 2 ^ 63"
    using sint_bounds64(2) [of "MaxSize l"] by simp
  with a have acc: "\<not> sint (MaxSize l) < sint (of_nat (length p) :: int64)"
    by (simp add: sint_of_nat_len)
  from a have f: "file l = None" by simp
  show "Write l p w =
        (case createFile l w of
           (Some e, l1, w1) \<Rightarrow> ((0, Some e), l1, w1)
         | (None, l1, w1) \<Rightarrow>
             (case File_Write (next_file w) p w1 of
                ((n, err), w') \<Rightarrow> ((n, err), l1\<lparr>size' := of_nat n\<rparr>, w')))"
    by (rule Write_closed [OF f acc])
  show "\<exists>cs. trace (snd (snd (Write l p w))) = trace w @ cs \<and>
         set cs \<subseteq> {SysStat (Dir w (Filename l)), SysMkdir (Dir w (Filename l)) 511,
                   SysOpenFile (Filename l) [O_CREATE, O_APPEND, O_WRONLY] 438,
                   SysWrite (next_file w) p}"
    by (rule Write_closed_calls [OF f acc])
qed

theorem Write_exact_threshold_witness:
  "fst (Write open_writer (replicate 434176 66) open_world) = (434176, None) \<and>
   sint (size' (fst (snd (Write open_writer (replicate 434176 66) open_world)))) = 1048576 \<and>
   trace (snd (snd (Write open_writer (replicate 434176 66) open_world))) =
     [SysWrite 3 (replicate 434176 66)] \<and>
   fst (Write (NewLogrotate ''logs/app.log'' 1) (replicate 1048576 65) example_world) =
     (1048576, None) \<and>
   sint (size' (fst (snd (Write (NewLogrotate ''logs/app.log'' 1) (replicate 1048576 65)
     example_world)))) = 1048576 \<and>
   trace (snd (snd (Write (NewLogrotate ''logs/app.log'' 1) (replicate 1048576 65)
     example_world))) \<noteq> trace example_world"
proof -
  let ?p = "replicate 434176 (66 :: byte)"
  let ?q = "replicate 1048576 (65 :: byte)"
  let ?l = "NewLogrotate ''logs/app.log'' 1"
  have h: "file open_writer = Some 3 \<and> 0 \<le> sint (size' open_writer) \<and>
      sint (size' open_writer) + int (length ?p) = sint (MaxSize open_writer)"
    by (simp add: open_writer_def)
  have fw: "fst (File_Write 3 ?p open_world) = (434176, None)"
    "trace (snd (File_Write 3 ?p open_world)) = [SysWrite 3 ?p]"
    by (simp_all add: File_Write_def enter_def open_world_def)
  from Write_exact_threshold [of ?p open_writer open_world 3] h
  have A: "Write open_writer ?p open_world =
        (case File_Write 3 ?p open_world of
           ((n, err), w') \<Rightarrow> ((n, err), open_writer\<lparr>size' := size' open_writer + of_nat n\<rparr>, w'))"
    "trace (snd (snd (Write open_writer ?p open_world))) = trace open_world @ [SysWrite 3 ?p]"
    by blast+
  have A': "fst (Write open_writer ?p open_world) = (434176, None)"
    "sint (size' (fst (snd (Write open_writer ?p open_world)))) = 1048576"
    using A(1) fw(1) by (auto simp: open_writer_def split: prod.splits)
  have A'': "trace (snd (snd (Write open_writer ?p open_world))) = [SysWrite 3 ?p]"
    using A(2) by (simp add: open_world_def)
  have g: "file ?l = None \<and> int (length ?q) = sint (MaxSize ?l)"
    by (simp add: NewLogrotate_def defaultSize_def megabyte_def)
  from Write_exact_threshold [of ?q ?l example_world 0] g
  have B: "trace (snd (snd (Write ?l ?q example_world))) \<noteq> trace example_world"
    "Write ?l ?q example_world =
        (case createFile ?l example_world of
           (Some e, l1, w1) \<Rightarrow> ((0, Some e), l1, w1)
         | (None, l1, w1) \<Rightarrow>
             (case File_Write (next_file example_world) ?q w1 of
                ((n, err), w') \<Rightarrow> ((n, err), l1\<lparr>size' := of_nat n\<rparr>, w')))"
    by blast+
  have B': "fst (Write ?l ?q example_world) = (1048576, None)"
    "sint (size' (fst (snd (Write ?l ?q example_world)))) = 1048576"
    unfolding B(2)
    by (simp_all add: eval_defs File_Write_def NewLogrotate_def defaultSize_def megabyte_def
        example_world_def)
  from A' A'' B(1) B' show ?thesis by simp
qed

subsection \<open>The empty payload\<close>



end
